theory Spec2Isabelle
  imports Main "HOL-Library.Word"
begin

section \<open>Errors\<close>

text \<open>
  The Go code reports failures as values of the interface \<open>error\<close>, \<open>nil\<close> meaning
  success; a possibly-nil error is an \<open>error option\<close> here. The two functions of
  \<open>gitlab.com/NebulousLabs/errors\<close> that the code calls are \<open>AddContext\<close> (wrap an
  error with a message) and \<open>Compose\<close> (collect the non-nil errors of its arguments,
  \<open>nil\<close> when there is none).
\<close>

datatype error =
    Err string
  | WithContext error string
  | ErrSet "error list"

definition errors_AddContext :: "error \<Rightarrow> string \<Rightarrow> error" where
  "errors_AddContext err s = WithContext err s"


text \<open>A nil pointer dereference panics; a function that can panic returns an outcome.\<close>

datatype 'a outcome = Panic | Return 'a


section \<open>Time values\<close>

text \<open>
  Go's \<open>time.Time\<close> is a struct of the words \<open>wall\<close> and \<open>ext\<close> and the pointer
  \<open>loc\<close>, and \<open>!=\<close> on two \<open>Time\<close> values compares the three fields. For a time
  without monotonic clock reading \<open>wall\<close> holds the nanoseconds and \<open>ext\<close> the
  seconds since year 1. \<open>time.Unix(sec, 0)\<close> builds such a value in the location
  \<open>Local\<close>, and \<open>UTC()\<close> sets the location pointer to \<open>nil\<close>, which stands for UTC.
\<close>

datatype Location = loc_nil | loc_Local | loc_other nat

record Time =
  wall :: "64 word"
  ext :: "64 word"
  loc :: Location

definition unixToInternal :: "64 word" where
  "unixToInternal = 62135596800"

definition time_Unix :: "64 word \<Rightarrow> 64 word \<Rightarrow> Time" where
  \<comment> \<open>for \<open>0 \<le> nsec < 1e9\<close>, the only case the code uses (\<open>nsec = 0\<close>)\<close>
  "time_Unix sec nsec = \<lparr>wall = nsec, ext = sec + unixToInternal, loc = loc_Local\<rparr>"

definition Time_UTC :: "Time \<Rightarrow> Time" where
  "Time_UTC t = t\<lparr>loc := loc_nil\<rparr>"


section \<open>Users and tiers (package database)\<close>

text \<open>
  The tier constants \<open>database.TierFree\<close>, \<open>database.TierPremium5\<close>,
  \<open>database.TierPremium20\<close> and \<open>database.TierPremium80\<close> are Go \<open>int\<close> constants whose
  declaration is not among the source files. Their values are a parameter of
  everything that uses them.
\<close>

record tier_consts =
  TierFree :: int
  TierPremium5 :: int
  TierPremium20 :: int
  TierPremium80 :: int

text \<open>
  Modelled from the spec: the declaration of the tier constants of package
  \<open>database\<close> is missing. The spec's glossary calls a tier "an enumerated integer service
  level (free, and one or more paid tiers)" and a plan "mapped one-to-one (at most) onto a
  tier": the four constants are pairwise different.
\<close>

definition tiers_enumerated :: "tier_consts \<Rightarrow> bool" where
  "tiers_enumerated K =
     distinct [TierFree K, TierPremium5 K, TierPremium20 K, TierPremium80 K]"

text \<open>
  The fields of \<open>database.User\<close> that the code reads or writes (the struct's declaration
  is not among the source files).
\<close>

record User =
  ID :: string
  FirstName :: string
  LastName :: string
  Email :: string
  Sub :: string
  StripeId :: string
  Tier :: int
  SubscribedUntil :: Time


section \<open>Stripe objects (package stripe)\<close>

record Product =
  Product_ID :: string

record Plan =
  Plan_Product :: "Product option"

record Customer =
  Customer_ID :: string

text \<open>
  \<open>stripe.Subscription\<close>: \<open>Customer\<close> and \<open>Plan\<close> are pointers (and so is the plan's
  \<open>Product\<close>), \<open>None\<close> being \<open>nil\<close>; \<open>CurrentPeriodEnd\<close> is an \<open>int64\<close> of epoch
  seconds.
\<close>

record Subscription =
  Subscription_ID :: string
  Customer :: "Customer option"
  Status :: string
  Plan :: "Plan option"
  CurrentPeriodEnd :: "64 word"

definition SubscriptionStatusActive :: string where
  "SubscriptionStatusActive = ''active''"

text \<open>\<open>stripe.CustomerParams\<close>: each field is a \<open>*string\<close>, \<open>None\<close> when not set.\<close>

record CustomerParams =
  Description :: "string option"
  Params_Email :: "string option"
  Name :: "string option"
  Params_Plan :: "string option"


section \<open>The services the code calls\<close>

text \<open>
  The database methods \<open>UserByStripeID\<close>, \<open>UserSave\<close> and \<open>UserSetTier\<close> and the Stripe
  client functions \<open>customer.Update\<close> and \<open>customer.New\<close> are not among the source
  files. They are parameters: each takes the calls made before it during the operation
  (so that the same call may be answered differently the second time) and its arguments,
  and gives the answer. \<open>UserSetTier\<close> takes the user by pointer, so it also gives the
  record as it leaves it in memory. Every operation returns the list of calls it made.
\<close>

datatype call =
    Call_UserByStripeID string
  | Call_UserSave User
  | Call_UserSetTier User int
  | Call_customer_Update string CustomerParams
  | Call_customer_New CustomerParams

record services =
  UserByStripeID :: "call list \<Rightarrow> string \<Rightarrow> error + User"
  UserSave :: "call list \<Rightarrow> User \<Rightarrow> error option"
  UserSetTier :: "call list \<Rightarrow> User \<Rightarrow> int \<Rightarrow> error option \<times> User"
  customer_Update :: "call list \<Rightarrow> string \<Rightarrow> CustomerParams \<Rightarrow> error + Customer"
  customer_New :: "call list \<Rightarrow> CustomerParams \<Rightarrow> error + Customer"

text \<open>The user records an operation hands to the database to be stored.\<close>

fun writes :: "call list \<Rightarrow> User list" where
  "writes [] = []"
| "writes (Call_UserSave u # cs) = u # writes cs"
| "writes (Call_UserSetTier u t # cs) = u # writes cs"
| "writes (c # cs) = writes cs"


section \<open>The plan table\<close>

text \<open>
  \<open>stripePlans\<close> is a Go map literal with four different keys: an association list.
  Indexing a Go map with two results gives the value and \<open>true\<close>, or the zero value and
  \<open>false\<close> for a missing key.
\<close>

definition stripePlans :: "tier_consts \<Rightarrow> (string \<times> int) list" where
  "stripePlans K =
     [(''prod_J2FBsxvEl4VoUK'', TierFree K),
      (''prod_J06Q7nJH3HJcYN'', TierPremium5 K),
      (''prod_J06Qu7zg1unO8R'', TierPremium20 K),
      (''prod_J06QbGjCvmZQGZ'', TierPremium80 K)]"

definition map_index :: "(string \<times> int) list \<Rightarrow> string \<Rightarrow> int \<times> bool" where
  "map_index m k = (case map_of m k of None \<Rightarrow> (0, False) | Some v \<Rightarrow> (v, True))"

text \<open>
  \<open>for plan, tier := range stripePlans\<close> visits every entry of the map once, in an
  order that Go leaves unspecified and that may change from one loop to the next. The
  order of a loop is an argument of the function that runs it.
\<close>

definition range_order :: "(string \<times> int) list \<Rightarrow> (string \<times> int) list \<Rightarrow> bool" where
  "range_order m ord \<longleftrightarrow> distinct ord \<and> set ord = set m"

fun planForTier :: "(string \<times> int) list \<Rightarrow> int \<Rightarrow> string" where
  "planForTier [] t = ''''"
| "planForTier ((plan, tier) # rest) t = (if tier = t then plan else planForTier rest t)"


section \<open>processSub\<close>

record processSub_run =
  ret :: "error option outcome"
  u_final :: "User option"
  calls :: "call list"

text \<open>
  \<open>u_final\<close> is the user record \<open>u\<close> as the function leaves it in memory (the logging
  calls are left out). \<open>s.Customer.ID\<close> and \<open>s.Plan.Product.ID\<close> panic on a nil
  pointer.
\<close>

definition processSub :: "tier_consts \<Rightarrow> services \<Rightarrow> Subscription \<Rightarrow> processSub_run" where
  "processSub K sv s =
     (case Customer s of
        None \<Rightarrow> \<lparr>ret = Panic, u_final = None, calls = []\<rparr>
      | Some c \<Rightarrow>
          let cs = [Call_UserByStripeID (Customer_ID c)] in
          (case UserByStripeID sv [] (Customer_ID c) of
             Inl err \<Rightarrow>
               \<lparr>ret = Return (Some (errors_AddContext err
                    ''failed to fetch user from DB based on subscription info'')),
                u_final = None, calls = cs\<rparr>
           | Inr u0 \<Rightarrow>
               let oldTier = Tier u0;
                   oldSubbedUntil = SubscribedUntil u0;
                   updated =
                     (if Status s \<noteq> SubscriptionStatusActive
                      then Some (u0\<lparr>Tier := TierFree K\<rparr>)
                      else
                        (case Plan s of
                           None \<Rightarrow> None
                         | Some pl \<Rightarrow>
                             (case Plan_Product pl of
                                None \<Rightarrow> None
                              | Some pr \<Rightarrow>
                                  let (tier, exists) = map_index (stripePlans K) (Product_ID pr);
                                      tier = (if \<not> exists then TierFree K else tier)
                                  in Some (u0\<lparr>Tier := tier,
                                              SubscribedUntil :=
                                                Time_UTC (time_Unix (CurrentPeriodEnd s) 0)\<rparr>))))
               in
               (case updated of
                  None \<Rightarrow> \<lparr>ret = Panic, u_final = Some u0, calls = cs\<rparr>
                | Some u \<Rightarrow>
                    if Tier u \<noteq> oldTier \<or> SubscribedUntil u \<noteq> oldSubbedUntil
                    then \<lparr>ret = Return (UserSave sv cs u), u_final = Some u,
                          calls = cs @ [Call_UserSave u]\<rparr>
                    else \<lparr>ret = Return None, u_final = Some u, calls = cs\<rparr>)))"


section \<open>createStripeCustomer and assignTier\<close>

text \<open>
  Both functions run \<open>planForTier\<close>, so they take the order of each loop over
  \<open>stripePlans\<close>. \<open>createStripeCustomer\<close> returns what \<open>customer.New\<close> returns; the
  model adds the user record as the function leaves it and the calls made.
\<close>

definition createStripeCustomer ::
  "services \<Rightarrow> (string \<times> int) list \<Rightarrow> User \<Rightarrow> (error + Customer) \<times> User \<times> call list" where
  "createStripeCustomer sv ord u =
     (let name = FirstName u @ '' '' @ LastName u;
          freePlan = planForTier ord (Tier u);
          cp = \<lparr>Description = Some (Sub u), Params_Email = Some (Email u),
                Name = Some name, Params_Plan = Some freePlan\<rparr>
      in (customer_New sv [] cp, u, [Call_customer_New cp]))"




section \<open>Aggregation pipelines (package database)\<close>

text \<open>
  BSON values as the builders write them: \<open>bson.D\<close> is an ordered document, \<open>bson.A\<close>
  an array, and a \<open>mongo.Pipeline\<close> a list of documents. Go's \<open>int\<close> arguments
  \<open>offset\<close> and \<open>pageSize\<close> are stored as they are, with no arithmetic on them.
\<close>

datatype bson =
    BNull
  | BBool bool
  | BInt int
  | BStr string
  | BDoc "(string \<times> bson) list"
  | BArr "bson list"

type_synonym bson_D = "(string \<times> bson) list"
type_synonym Pipeline = "bson_D list"

definition generateUploadsPipeline :: "bson_D \<Rightarrow> int \<Rightarrow> int \<Rightarrow> Pipeline" where
  "generateUploadsPipeline matchStage offset pageSize =
     (let sortStage = [(''$sort'', BDoc [(''timestamp'', BInt (- 1))])];
          skipStage = [(''$skip'', BInt offset)];
          limitStage = [(''$limit'', BInt pageSize)];
          lookupStage =
            [(''$lookup'', BDoc
               [(''from'', BStr ''skylinks''),
                (''localField'', BStr ''skylink_id''),
                (''foreignField'', BStr ''_id''),
                (''as'', BStr ''fromSkylinks'')])];
          replaceStage =
            [(''$replaceRoot'', BDoc
               [(''newRoot'', BDoc
                  [(''$mergeObjects'', BArr
                     [BDoc [(''$arrayElemAt'', BArr [BStr ''$fromSkylinks'', BInt 0])],
                      BStr ''$$ROOT''])])])];
          projectStage = [(''$project'', BDoc [(''fromSkylinks'', BInt 0)])]
      in [matchStage, sortStage, skipStage, limitStage, lookupStage, replaceStage,
          projectStage])"

definition generateDownloadsPipeline :: "bson_D \<Rightarrow> int \<Rightarrow> int \<Rightarrow> Pipeline" where
  "generateDownloadsPipeline matchStage offset pageSize =
     (let sortStage = [(''$sort'', BDoc [(''timestamp'', BInt (- 1))])];
          skipStage = [(''$skip'', BInt offset)];
          limitStage = [(''$limit'', BInt pageSize)];
          lookupStage =
            [(''$lookup'', BDoc
               [(''from'', BStr ''skylinks''),
                (''localField'', BStr ''skylink_id''),
                (''foreignField'', BStr ''_id''),
                (''as'', BStr ''fromSkylinks'')])];
          replaceStage =
            [(''$replaceRoot'', BDoc
               [(''newRoot'', BDoc
                  [(''$mergeObjects'', BArr
                     [BDoc [(''$arrayElemAt'', BArr [BStr ''$fromSkylinks'', BInt 0])],
                      BStr ''$$ROOT''])])])];
          projectStage =
            [(''$project'', BDoc
               [(''skylink'', BInt 1),
                (''name'', BInt 1),
                (''user_id'', BInt 1),
                (''skylink_id'', BInt 1),
                (''timestamp'', BInt 1),
                (''size'', BDoc
                   [(''$cond'', BArr
                      [BDoc [(''$gt'', BArr [BStr ''$bytes'', BInt 0])],
                       BStr ''$bytes'',
                       BStr ''$size''])])])]
      in [matchStage, sortStage, skipStage, limitStage, lookupStage, replaceStage,
          projectStage])"

text \<open>The operator of a stage: the key of its single field.\<close>

definition stage_op :: "bson_D \<Rightarrow> string option" where
  "stage_op st = (case st of [(k, v)] \<Rightarrow> Some k | _ \<Rightarrow> None)"


section \<open>count\<close>

text \<open>
  \<open>coll.Aggregate\<close> is a parameter: it answers a pipeline with an error or a cursor.
  A cursor of the MongoDB driver has three answers that matter here. \<open>Next\<close> is true
  when there is a further result document, and false when there is none or when fetching
  it failed. \<open>Cursor_Err\<close> (the driver's \<open>c.Err()\<close>) is the error of a failed
  iteration, \<open>None\<close> when nothing failed; \<open>count\<close> never reads it. \<open>Decode\<close> is
  the current document decoded into a struct with the \<open>int64\<close> field \<open>Count\<close>, or an
  error. The deferred \<open>Close\<close> only logs. An \<open>int64\<close> is its integer value.
\<close>

record Cursor =
  Next :: bool
  Cursor_Err :: "error option"
  Decode :: "error + int"

definition count :: "(Pipeline \<Rightarrow> error + Cursor) \<Rightarrow> bson_D \<Rightarrow> int \<times> error option" where
  "count Aggregate matchStage =
     (let pipeline = [matchStage, [(''$count'', BStr ''count'')]] in
      case Aggregate pipeline of
        Inl err \<Rightarrow> (0, Some (errors_AddContext err ''DB query failed''))
      | Inr c \<Rightarrow>
          if \<not> Next c then (0, None)
          else
            (case Decode c of
               Inl err \<Rightarrow> (0, Some (errors_AddContext err ''failed to decode DB data''))
             | Inr n \<Rightarrow> (n, None)))"

text \<open>
  What MongoDB answers to a pipeline that ends in \<open>$count\<close> when \<open>n\<close> documents reach
  that stage and nothing fails: no document for \<open>n = 0\<close>, and otherwise one document
  holding \<open>n\<close>.
\<close>

definition count_cursor :: "nat \<Rightarrow> Cursor" where
  "count_cursor n = \<lparr>Next = (n \<noteq> 0), Cursor_Err = None, Decode = Inr (int n)\<rparr>"


section \<open>What MongoDB does with the stages\<close>

text \<open>
  The last three stages of both pipelines work on one document at a time. Their meaning
  is MongoDB's, written out for the stage and operator forms the builders emit:
  \<open>$lookup\<close> with \<open>localField\<close>/\<open>foreignField\<close>, \<open>$replaceRoot\<close>, \<open>$project\<close>, and
  the expressions \<open>$mergeObjects\<close>, \<open>$arrayElemAt\<close>, \<open>$cond\<close>, \<open>$gt\<close>, field
  paths of one name and \<open>$$ROOT\<close>. The value of an expression is \<open>None\<close> when MongoDB
  calls it missing.
\<close>

fun set_field :: "string \<Rightarrow> bson \<Rightarrow> bson_D \<Rightarrow> bson_D" where
  "set_field k v [] = [(k, v)]"
| "set_field k v ((k', v') # d) =
     (if k' = k then (k, v) # d else (k', v') # set_field k v d)"

text \<open>\<open>$mergeObjects\<close>: the fields of the later document overwrite those of the earlier.\<close>

fun merge_docs :: "bson_D \<Rightarrow> bson_D \<Rightarrow> bson_D" where
  "merge_docs a [] = a"
| "merge_docs a ((k, v) # b) = merge_docs (set_field k v a) b"

definition array_elem_at :: "bson list \<Rightarrow> int \<Rightarrow> bson option" where
  "array_elem_at xs i =
     (if 0 \<le> i then (if nat i < length xs then Some (xs ! nat i) else None)
      else (if nat (- i) \<le> length xs then Some (xs ! (length xs - nat (- i))) else None))"

text \<open>
  The order of BSON values of different types: missing and null below numbers, numbers
  below strings, then documents, arrays and booleans. Two numbers compare by value; the
  model does not order two other values of one type.
\<close>

fun type_rank :: "bson option \<Rightarrow> nat" where
  "type_rank None = 0"
| "type_rank (Some BNull) = 1"
| "type_rank (Some (BInt n)) = 2"
| "type_rank (Some (BStr s)) = 3"
| "type_rank (Some (BDoc d)) = 4"
| "type_rank (Some (BArr xs)) = 5"
| "type_rank (Some (BBool b)) = 6"

fun bson_gt :: "bson option \<Rightarrow> bson option \<Rightarrow> bool" where
  "bson_gt (Some (BInt x)) (Some (BInt y)) = (y < x)"
| "bson_gt a b = (type_rank b < type_rank a)"

fun truthy :: "bson option \<Rightarrow> bool" where
  "truthy None = False"
| "truthy (Some BNull) = False"
| "truthy (Some (BBool b)) = b"
| "truthy (Some (BInt n)) = (n \<noteq> 0)"
| "truthy (Some v) = True"

fun docs_of :: "bson option list \<Rightarrow> bson_D list" where
  "docs_of [] = []"
| "docs_of (Some (BDoc d) # vs) = d # docs_of vs"
| "docs_of (v # vs) = docs_of vs"

definition apply_operator :: "string \<Rightarrow> bson option list \<Rightarrow> bson option" where
  "apply_operator op vs =
     (if op = ''$arrayElemAt'' then
        (case vs of
           [Some (BArr xs), Some (BInt i)] \<Rightarrow> array_elem_at xs i
         | _ \<Rightarrow> Some BNull)
      else if op = ''$mergeObjects'' then Some (BDoc (foldl merge_docs [] (docs_of vs)))
      else if op = ''$gt'' then
        (case vs of [a, b] \<Rightarrow> Some (BBool (bson_gt a b)) | _ \<Rightarrow> None)
      else if op = ''$cond'' then
        (case vs of [c, t, e] \<Rightarrow> (if truthy c then t else e) | _ \<Rightarrow> None)
      else None)"

definition field_path :: "bson_D \<Rightarrow> string \<Rightarrow> bson option" where
  "field_path root s =
     (if s = ''$$ROOT'' then Some (BDoc root)
      else if s \<noteq> [] \<and> hd s = CHR ''$'' then map_of root (tl s)
      else Some (BStr s))"

fun eval_expr :: "bson_D \<Rightarrow> bson \<Rightarrow> bson option" where
  "eval_expr root (BStr s) = field_path root s"
| "eval_expr root (BDoc [(op, BArr args)]) = apply_operator op (map (eval_expr root) args)"
| "eval_expr root v = Some v"

definition field_or_null :: "bson_D \<Rightarrow> string \<Rightarrow> bson" where
  "field_or_null d k = (case map_of d k of None \<Rightarrow> BNull | Some v \<Rightarrow> v)"

text \<open>
  \<open>$lookup\<close> stores under \<open>as\<close> the array of the documents of collection \<open>from\<close>
  whose \<open>foreignField\<close> equals the row's \<open>localField\<close>. A database is a function from
  collection names to documents.
\<close>

definition lookup_row :: "(string \<Rightarrow> bson_D list) \<Rightarrow> bson_D \<Rightarrow> bson_D \<Rightarrow> bson_D option" where
  "lookup_row db spec row =
     (case (map_of spec ''from'', map_of spec ''localField'',
            map_of spec ''foreignField'', map_of spec ''as'') of
        (Some (BStr from), Some (BStr lf), Some (BStr ff), Some (BStr as)) \<Rightarrow>
          Some (set_field as
                  (BArr (map BDoc
                     (filter (\<lambda>d. field_or_null d ff = field_or_null row lf) (db from))))
                  row)
      | _ \<Rightarrow> None)"

text \<open>
  \<open>$project\<close>: a specification of zeros only removes the named fields; any other keeps
  \<open>_id\<close> (unless named), the fields flagged with a non-zero number, and the fields
  computed by an expression whose value is not missing.
\<close>

fun is_flag :: "bson \<Rightarrow> bool" where
  "is_flag (BInt n) = True"
| "is_flag (BBool b) = True"
| "is_flag v = False"

definition is_exclusion :: "bson_D \<Rightarrow> bool" where
  "is_exclusion spec = list_all (\<lambda>(k, v). v = BInt 0 \<or> v = BBool False) spec"

definition project_field :: "bson_D \<Rightarrow> string \<times> bson \<Rightarrow> (string \<times> bson) option" where
  "project_field row = (\<lambda>(k, e).
     if is_flag e then
       (if e = BInt 0 \<or> e = BBool False then None else map_option (Pair k) (map_of row k))
     else map_option (Pair k) (eval_expr row e))"

definition project_row :: "bson_D \<Rightarrow> bson_D \<Rightarrow> bson_D" where
  "project_row spec row =
     (if is_exclusion spec then filter (\<lambda>(k, v). map_of spec k = None) row
      else
        (case map_of row ''_id'' of
           Some v \<Rightarrow> (if map_of spec ''_id'' = None then [(''_id'', v)] else [])
         | None \<Rightarrow> [])
        @ List.map_filter (project_field row) spec)"

definition run_stage :: "(string \<Rightarrow> bson_D list) \<Rightarrow> bson_D \<Rightarrow> bson_D \<Rightarrow> bson_D option" where
  "run_stage db stage row =
     (case stage of
        [(op, BDoc spec)] \<Rightarrow>
          if op = ''$lookup'' then lookup_row db spec row
          else if op = ''$replaceRoot'' then
            (case map_of spec ''newRoot'' of
               Some e \<Rightarrow> (case eval_expr row e of Some (BDoc d) \<Rightarrow> Some d | _ \<Rightarrow> None)
             | None \<Rightarrow> None)
          else if op = ''$project'' then Some (project_row spec row)
          else None
      | _ \<Rightarrow> None)"

fun run_stages :: "(string \<Rightarrow> bson_D list) \<Rightarrow> Pipeline \<Rightarrow> bson_D \<Rightarrow> bson_D option" where
  "run_stages db [] row = Some row"
| "run_stages db (stage # stages) row =
     (case run_stage db stage row of
        None \<Rightarrow> None
      | Some row' \<Rightarrow> run_stages db stages row')"


section \<open>Sample values\<close>

text \<open>
  Concrete inputs at which the theorems below are instantiated. The numbers of
  \<open>tiers0\<close> are one choice of the four tier constants, \<open>TierFree\<close> being 1.
\<close>

definition tiers0 :: tier_consts where
  "tiers0 = \<lparr>TierFree = 1, TierPremium5 = 2, TierPremium20 = 3, TierPremium80 = 4\<rparr>"

definition user0 :: User where
  "user0 =
     \<lparr>ID = ''5fda32ef6e0aba5d16c0d550'', FirstName = ''Ada'', LastName = ''Moss'',
      Email = ''ada@example.com'', Sub = ''sub-ada'', StripeId = ''cus_ada'', Tier = 1,
      SubscribedUntil = \<lparr>wall = 0, ext = 0, loc = loc_nil\<rparr>\<rparr>"

definition services0 :: "User \<Rightarrow> services" where
  \<comment> \<open>a database that holds the given user, and services that never fail\<close>
  "services0 u =
     \<lparr>UserByStripeID = (\<lambda>h i. if i = StripeId u then Inr u else Inl (Err ''user not found'')),
      UserSave = (\<lambda>h v. None),
      UserSetTier = (\<lambda>h v t. (None, v\<lparr>Tier := t\<rparr>)),
      customer_Update = (\<lambda>h i p. Inr \<lparr>Customer_ID = i\<rparr>),
      customer_New = (\<lambda>h p. Inr \<lparr>Customer_ID = ''cus_new''\<rparr>)\<rparr>"

definition sub0 :: "string \<Rightarrow> string \<Rightarrow> Subscription" where
  "sub0 status product =
     \<lparr>Subscription_ID = ''sub_1'', Customer = Some \<lparr>Customer_ID = ''cus_ada''\<rparr>,
      Status = status, Plan = Some \<lparr>Plan_Product = Some \<lparr>Product_ID = product\<rparr>\<rparr>,
      CurrentPeriodEnd = 1700000000\<rparr>"

definition download0 :: "int \<Rightarrow> bson_D" where
  "download0 b =
     [(''_id'', BStr ''d1''), (''user_id'', BStr ''u1''), (''skylink_id'', BStr ''s1''),
      (''bytes'', BInt b), (''timestamp'', BInt 1612345678)]"

definition skylink0 :: bson_D where
  "skylink0 =
     [(''_id'', BStr ''s1''), (''skylink'', BStr ''AAAA''), (''name'', BStr ''file.txt''),
      (''size'', BInt 200)]"

definition db0 :: "string \<Rightarrow> bson_D list" where
  "db0 coll = (if coll = ''skylinks'' then [skylink0] else [])"

definition user_paid0 :: User where
  "user_paid0 = user0\<lparr>Tier := 2, SubscribedUntil := Time_UTC (time_Unix 1700000000 0)\<rparr>"



definition failed_cursor0 :: Cursor where
  \<comment> \<open>a cursor whose first \<open>Next\<close> failed: it answers false and holds the error\<close>
  "failed_cursor0 =
     \<lparr>Next = False, Cursor_Err = Some (Err ''context deadline exceeded''),
      Decode = Inl (Err ''no current document'')\<rparr>"

definition joined0 :: bson_D where
  \<comment> \<open>a record that has a name of its own, after the join with \<open>skylink0\<close>\<close>
  "joined0 =
     [(''_id'', BStr ''d1''), (''name'', BStr ''mine''), (''skylink_id'', BStr ''s1''),
      (''fromSkylinks'', BArr [BDoc skylink0])]"


section \<open>Properties of processSub and planForTier\<close>

subsection \<open>processSub, case by case\<close>

lemma processSub_no_customer:
  "Customer s = None \<Longrightarrow> processSub K sv s = \<lparr>ret = Panic, u_final = None, calls = []\<rparr>"
  by (simp add: processSub_def)

lemma processSub_no_user:
  assumes "Customer s = Some c"
    and "UserByStripeID sv [] (Customer_ID c) = Inl e"
  shows "processSub K sv s =
     \<lparr>ret = Return (Some (errors_AddContext e
               ''failed to fetch user from DB based on subscription info'')),
      u_final = None, calls = [Call_UserByStripeID (Customer_ID c)]\<rparr>"
  using assms by (simp add: processSub_def)

lemma processSub_not_active_eq:
  assumes "Customer s = Some c"
    and "UserByStripeID sv [] (Customer_ID c) = Inr u"
    and "Status s \<noteq> SubscriptionStatusActive"
  shows "processSub K sv s =
     (if Tier u = TierFree K
      then \<lparr>ret = Return None, u_final = Some (u\<lparr>Tier := TierFree K\<rparr>),
            calls = [Call_UserByStripeID (Customer_ID c)]\<rparr>
      else \<lparr>ret = Return (UserSave sv [Call_UserByStripeID (Customer_ID c)]
                            (u\<lparr>Tier := TierFree K\<rparr>)),
            u_final = Some (u\<lparr>Tier := TierFree K\<rparr>),
            calls = [Call_UserByStripeID (Customer_ID c),
                     Call_UserSave (u\<lparr>Tier := TierFree K\<rparr>)]\<rparr>)"
  using assms by (simp add: processSub_def Let_def)

lemma processSub_no_plan:
  assumes "Customer s = Some c"
    and "UserByStripeID sv [] (Customer_ID c) = Inr u"
    and "Status s = SubscriptionStatusActive"
    and "Plan s = None \<or> (\<exists>pl. Plan s = Some pl \<and> Plan_Product pl = None)"
  shows "processSub K sv s =
     \<lparr>ret = Panic, u_final = Some u, calls = [Call_UserByStripeID (Customer_ID c)]\<rparr>"
  using assms by (auto simp add: processSub_def Let_def)

lemma processSub_active_eq:
  assumes "Customer s = Some c"
    and "UserByStripeID sv [] (Customer_ID c) = Inr u"
    and "Status s = SubscriptionStatusActive"
    and "Plan s = Some pl" and "Plan_Product pl = Some pr"
  shows "processSub K sv s =
     (let u' = u\<lparr>Tier := (case map_of (stripePlans K) (Product_ID pr) of
                            None \<Rightarrow> TierFree K | Some t \<Rightarrow> t),
                 SubscribedUntil := Time_UTC (time_Unix (CurrentPeriodEnd s) 0)\<rparr>
      in if Tier u' \<noteq> Tier u \<or> SubscribedUntil u' \<noteq> SubscribedUntil u
      then \<lparr>ret = Return (UserSave sv [Call_UserByStripeID (Customer_ID c)] u'),
            u_final = Some u',
            calls = [Call_UserByStripeID (Customer_ID c), Call_UserSave u']\<rparr>
      else \<lparr>ret = Return None, u_final = Some u',
            calls = [Call_UserByStripeID (Customer_ID c)]\<rparr>)"
proof (cases "map_of (stripePlans K) (Product_ID pr)")
  case None
  then show ?thesis using assms by (simp add: processSub_def Let_def map_index_def)
next
  case (Some t)
  then show ?thesis using assms by (simp add: processSub_def Let_def map_index_def)
qed

lemma processSub_writes_differ:
  assumes "w \<in> set (writes (calls (processSub K sv s)))"
  shows "\<exists>c u. Customer s = Some c \<and> UserByStripeID sv [] (Customer_ID c) = Inr u \<and>
           u_final (processSub K sv s) = Some w \<and>
           writes (calls (processSub K sv s)) = [w] \<and>
           (Tier w, SubscribedUntil w) \<noteq> (Tier u, SubscribedUntil u)"
proof (cases "Customer s")
  case None
  then show ?thesis using assms by (simp add: processSub_no_customer)
next
  case (Some c)
  note c = this
  show ?thesis
  proof (cases "UserByStripeID sv [] (Customer_ID c)")
    case (Inl e)
    then show ?thesis using assms c by (simp add: processSub_no_user)
  next
    case (Inr u)
    note u = this
    show ?thesis
    proof (cases "Status s = SubscriptionStatusActive")
      case False
      show ?thesis using assms c u
        by (simp add: processSub_not_active_eq [OF c u False] split: if_splits)
    next
      case True
      note act = this
      show ?thesis
      proof (cases "Plan s = None \<or> (\<exists>pl. Plan s = Some pl \<and> Plan_Product pl = None)")
        case True
        then show ?thesis using assms by (simp add: processSub_no_plan [OF c u act])
      next
        case False
        then obtain pl pr where pl: "Plan s = Some pl" and pr: "Plan_Product pl = Some pr"
          by auto
        show ?thesis using assms c u
          by (simp add: processSub_active_eq [OF c u act pl pr] Let_def split: if_splits)
      qed
    qed
  qed
qed

lemma processSub_settled_no_write:
  assumes c: "Customer s = Some c"
    and u': "u_final (processSub K sv s) = Some u'"
    and u2: "UserByStripeID sv2 [] (Customer_ID c) = Inr u2"
    and same: "Tier u2 = Tier u'" "SubscribedUntil u2 = SubscribedUntil u'"
  shows "writes (calls (processSub K sv2 s)) = []"
proof (cases "UserByStripeID sv [] (Customer_ID c)")
  case (Inl e)
  then show ?thesis using u' c by (simp add: processSub_no_user)
next
  case (Inr u)
  note u = this
  show ?thesis
  proof (cases "Status s = SubscriptionStatusActive")
    case False
    have "Tier u' = TierFree K"
      using u' by (simp add: processSub_not_active_eq [OF c u False] split: if_splits) auto
    then show ?thesis using same
      by (simp add: processSub_not_active_eq [OF c u2 False])
  next
    case True
    note act = this
    show ?thesis
    proof (cases "Plan s = None \<or> (\<exists>pl. Plan s = Some pl \<and> Plan_Product pl = None)")
      case True
      then show ?thesis by (simp add: processSub_no_plan [OF c u2 act])
    next
      case False
      then obtain pl pr where pl: "Plan s = Some pl" and pr: "Plan_Product pl = Some pr"
        by auto
      have "Tier u' = (case map_of (stripePlans K) (Product_ID pr) of
                            None \<Rightarrow> TierFree K | Some t \<Rightarrow> t)
          \<and> SubscribedUntil u' = Time_UTC (time_Unix (CurrentPeriodEnd s) 0)"
        using u' by (simp add: processSub_active_eq [OF c u act pl pr] Let_def split: if_splits) auto
      then show ?thesis using same
        by (simp add: processSub_active_eq [OF c u2 act pl pr] Let_def)
    qed
  qed
qed

lemma planForTier_absent: "t \<notin> snd ` set ord \<Longrightarrow> planForTier ord t = ''''"
  by (induction ord) auto

lemma planForTier_present: "t \<in> snd ` set ord \<Longrightarrow> (planForTier ord t, t) \<in> set ord"
proof (induction ord)
  case Nil
  then show ?case by simp
next
  case (Cons e ord)
  obtain plan tier where e: "e = (plan, tier)" by (cases e)
  show ?case
  proof (cases "tier = t")
    case True
    then show ?thesis by (simp add: e)
  next
    case False
    with Cons.prems have "t \<in> snd ` set ord" by (auto simp: e)
    with Cons.IH False show ?thesis by (simp add: e)
  qed
qed

lemma planForTier_unique:
  assumes "(p, t) \<in> set ord" and "\<And>p'. (p', t) \<in> set ord \<Longrightarrow> p' = p"
  shows "planForTier ord t = p"
proof -
  have "t \<in> snd ` set ord" using assms(1) by (metis image_eqI snd_conv)
  then have "(planForTier ord t, t) \<in> set ord" by (rule planForTier_present)
  then show ?thesis by (rule assms(2))
qed

lemma stripePlans_one_plan_per_tier:
  "tiers_enumerated K \<Longrightarrow> (p, t) \<in> set (stripePlans K) \<Longrightarrow> (p', t) \<in> set (stripePlans K)
   \<Longrightarrow> p' = p"
  by (auto simp: tiers_enumerated_def stripePlans_def)

lemma range_order_self: "range_order (stripePlans tiers0) (stripePlans tiers0)"
  by (simp add: range_order_def stripePlans_def tiers0_def)

lemma range_order_rev: "range_order (stripePlans tiers0) (rev (stripePlans tiers0))"
  using range_order_self by (simp add: range_order_def)

lemma tiers0_enumerated: "tiers_enumerated tiers0"
  by (simp add: tiers_enumerated_def tiers0_def)

text \<open>
  Claim C1. For every subscription event, \<open>processSub\<close> hands a user record to
  \<open>UserSave\<close> only if the pair (tier, expiry) it computed differs from the pair of the
  user it fetched, and then it saves once, the record it computed. When the event is
  processed again for a user whose stored pair is already the computed pair, no record
  is written.
\<close>

theorem processSub_persists_only_on_change:
  "(\<forall>w. w \<in> set (writes (calls (processSub K sv s))) \<longrightarrow>
      (\<exists>c u. Customer s = Some c \<and> UserByStripeID sv [] (Customer_ID c) = Inr u \<and>
         u_final (processSub K sv s) = Some w \<and>
         writes (calls (processSub K sv s)) = [w] \<and>
         (Tier w, SubscribedUntil w) \<noteq> (Tier u, SubscribedUntil u)))
   \<and> (\<forall>c u' u2.
        Customer s = Some c \<and> u_final (processSub K sv s) = Some u' \<and>
        UserByStripeID sv2 [] (Customer_ID c) = Inr u2 \<and>
        Tier u2 = Tier u' \<and> SubscribedUntil u2 = SubscribedUntil u' \<longrightarrow>
        writes (calls (processSub K sv2 s)) = [])"
  using processSub_writes_differ [of _ K sv s] processSub_settled_no_write [of s _ K sv _ sv2]
  by blast

theorem processSub_persists_only_on_change_witness:
  "user_paid0 \<in> set (writes (calls (processSub tiers0 (services0 user0)
       (sub0 ''active'' ''prod_J06Q7nJH3HJcYN''))))
   \<and> (Tier user_paid0, SubscribedUntil user_paid0) \<noteq> (Tier user0, SubscribedUntil user0)
   \<and> u_final (processSub tiers0 (services0 user0) (sub0 ''active'' ''prod_J06Q7nJH3HJcYN''))
       = Some user_paid0
   \<and> UserByStripeID (services0 user_paid0) [] ''cus_ada'' = Inr user_paid0
   \<and> writes (calls (processSub tiers0 (services0 user_paid0)
       (sub0 ''active'' ''prod_J06Q7nJH3HJcYN''))) = []"
  using processSub_persists_only_on_change [of tiers0 "services0 user0"
      "sub0 ''active'' ''prod_J06Q7nJH3HJcYN''" "services0 user_paid0"]
  by (simp add: processSub_def tiers0_def services0_def sub0_def user0_def user_paid0_def
      stripePlans_def map_index_def Time_UTC_def time_Unix_def unixToInternal_def
      errors_AddContext_def SubscriptionStatusActive_def)

text \<open>
  Claim C5. For an event whose status is not active, \<open>processSub\<close> sets the tier of the
  user it fetched to \<open>TierFree\<close> and changes no other field: the expiry stays as stored.
  The record is saved when the stored tier was not already free.
\<close>

theorem processSub_not_active_demotes:
  assumes "Customer s = Some c"
    and "UserByStripeID sv [] (Customer_ID c) = Inr u"
    and "Status s \<noteq> SubscriptionStatusActive"
  shows "\<exists>u'. u_final (processSub K sv s) = Some u' \<and>
           Tier u' = TierFree K \<and>
           SubscribedUntil u' = SubscribedUntil u \<and>
           u' = u\<lparr>Tier := TierFree K\<rparr> \<and>
           writes (calls (processSub K sv s)) = (if Tier u = TierFree K then [] else [u'])"
  by (simp add: processSub_not_active_eq [OF assms])

theorem processSub_not_active_demotes_witness:
  "Customer (sub0 ''canceled'' ''prod_J06Q7nJH3HJcYN'') = Some \<lparr>Customer_ID = ''cus_ada''\<rparr>
   \<and> UserByStripeID (services0 user_paid0) [] ''cus_ada'' = Inr user_paid0
   \<and> Status (sub0 ''canceled'' ''prod_J06Q7nJH3HJcYN'') \<noteq> SubscriptionStatusActive
   \<and> u_final (processSub tiers0 (services0 user_paid0) (sub0 ''canceled'' ''prod_J06Q7nJH3HJcYN''))
       = Some (user_paid0\<lparr>Tier := 1\<rparr>)
   \<and> writes (calls (processSub tiers0 (services0 user_paid0)
        (sub0 ''canceled'' ''prod_J06Q7nJH3HJcYN''))) = [user_paid0\<lparr>Tier := 1\<rparr>]"
  using processSub_not_active_demotes [of "sub0 ''canceled'' ''prod_J06Q7nJH3HJcYN''"
      "\<lparr>Customer_ID = ''cus_ada''\<rparr>" "services0 user_paid0" user_paid0 tiers0]
  by (simp add: tiers0_def services0_def sub0_def user0_def user_paid0_def
      SubscriptionStatusActive_def)

text \<open>
  Claim C9. For an active event whose product id is not a key of \<open>stripePlans\<close>,
  \<open>processSub\<close> sets the tier to \<open>TierFree\<close> and the expiry to the event's period end as
  a UTC time; when the stored expiry differs from that time the record is saved, although
  the resulting tier is free.
\<close>

theorem processSub_active_unknown_plan:
  assumes "Customer s = Some c"
    and "UserByStripeID sv [] (Customer_ID c) = Inr u"
    and "Status s = SubscriptionStatusActive"
    and "Plan s = Some pl" and "Plan_Product pl = Some pr"
    and "Product_ID pr \<notin> fst ` set (stripePlans K)"
  shows "\<exists>u'. u_final (processSub K sv s) = Some u' \<and>
           Tier u' = TierFree K \<and>
           SubscribedUntil u' =
             \<lparr>wall = 0, ext = CurrentPeriodEnd s + unixToInternal, loc = loc_nil\<rparr> \<and>
           u' = u\<lparr>Tier := TierFree K,
                  SubscribedUntil := Time_UTC (time_Unix (CurrentPeriodEnd s) 0)\<rparr> \<and>
           (SubscribedUntil u \<noteq> SubscribedUntil u' \<longrightarrow>
              calls (processSub K sv s) =
                [Call_UserByStripeID (Customer_ID c), Call_UserSave u'] \<and>
              ret (processSub K sv s) =
                Return (UserSave sv [Call_UserByStripeID (Customer_ID c)] u'))"
proof -
  have "map_of (stripePlans K) (Product_ID pr) = None"
    using assms(6) by (simp add: map_of_eq_None_iff)
  then show ?thesis
    by (simp add: processSub_active_eq [OF assms(1-5)] Let_def Time_UTC_def time_Unix_def)
qed

theorem processSub_active_unknown_plan_witness:
  "Product_ID \<lparr>Product_ID = ''prod_retired''\<rparr> \<notin> fst ` set (stripePlans tiers0)
   \<and> u_final (processSub tiers0 (services0 user0) (sub0 ''active'' ''prod_retired''))
       = Some (user0\<lparr>SubscribedUntil := \<lparr>wall = 0, ext = 63835596800, loc = loc_nil\<rparr>\<rparr>)
   \<and> Tier user0 = TierFree tiers0
   \<and> writes (calls (processSub tiers0 (services0 user0) (sub0 ''active'' ''prod_retired'')))
       = [user0\<lparr>SubscribedUntil := \<lparr>wall = 0, ext = 63835596800, loc = loc_nil\<rparr>\<rparr>]"
  using processSub_active_unknown_plan [of "sub0 ''active'' ''prod_retired''"
      "\<lparr>Customer_ID = ''cus_ada''\<rparr>" "services0 user0" user0
      "\<lparr>Plan_Product = Some \<lparr>Product_ID = ''prod_retired''\<rparr>\<rparr>"
      "\<lparr>Product_ID = ''prod_retired''\<rparr>" tiers0]
  by (simp add: tiers0_def services0_def sub0_def user0_def stripePlans_def
      SubscriptionStatusActive_def unixToInternal_def)

text \<open>
  Claim C6. The tier lookup of \<open>processSub\<close> is total: for an active event with a
  product id the run does not panic and the tier is the table's entry, or \<open>TierFree\<close>
  when the id is not in the table. \<open>planForTier\<close> returns the empty string for a tier
  that no entry of the table has, whatever the order of its loop.
\<close>

theorem tier_lookup_total_planForTier_empty:
  "(Customer s = Some c \<and> UserByStripeID sv [] (Customer_ID c) = Inr u \<and>
    Status s = SubscriptionStatusActive \<and> Plan s = Some pl \<and> Plan_Product pl = Some pr \<longrightarrow>
      ret (processSub K sv s) \<noteq> Panic \<and>
      (\<exists>u'. u_final (processSub K sv s) = Some u' \<and>
         Tier u' = (case map_of (stripePlans K) (Product_ID pr) of
                      None \<Rightarrow> TierFree K | Some t \<Rightarrow> t) \<and>
         (Product_ID pr \<notin> fst ` set (stripePlans K) \<longrightarrow> Tier u' = TierFree K)))
   \<and> (range_order (stripePlans K) ord \<and> t \<notin> snd ` set (stripePlans K) \<longrightarrow>
        planForTier ord t = '''')"
proof (intro conjI impI)
  assume a: "Customer s = Some c \<and> UserByStripeID sv [] (Customer_ID c) = Inr u \<and>
    Status s = SubscriptionStatusActive \<and> Plan s = Some pl \<and> Plan_Product pl = Some pr"
  then have "Customer s = Some c" and "UserByStripeID sv [] (Customer_ID c) = Inr u"
    and "Status s = SubscriptionStatusActive" and "Plan s = Some pl"
    and "Plan_Product pl = Some pr"
    by simp_all
  note eq = processSub_active_eq [OF this, of K]
  show "ret (processSub K sv s) \<noteq> Panic"
    by (simp add: eq Let_def)
  show "\<exists>u'. u_final (processSub K sv s) = Some u' \<and>
         Tier u' = (case map_of (stripePlans K) (Product_ID pr) of
                      None \<Rightarrow> TierFree K | Some t \<Rightarrow> t) \<and>
         (Product_ID pr \<notin> fst ` set (stripePlans K) \<longrightarrow> Tier u' = TierFree K)"
  proof (cases "map_of (stripePlans K) (Product_ID pr)")
    case None
    then show ?thesis by (simp add: eq Let_def)
  next
    case (Some t)
    then have "Product_ID pr \<in> fst ` set (stripePlans K)"
      using map_of_eq_None_iff [of "stripePlans K" "Product_ID pr"] by auto
    with Some show ?thesis by (simp add: eq Let_def)
  qed
next
  assume "range_order (stripePlans K) ord \<and> t \<notin> snd ` set (stripePlans K)"
  then show "planForTier ord t = ''''"
    by (simp add: range_order_def planForTier_absent)
qed

theorem tier_lookup_total_planForTier_empty_witness:
  "Product_ID \<lparr>Product_ID = ''prod_retired''\<rparr> \<notin> fst ` set (stripePlans tiers0)
   \<and> ret (processSub tiers0 (services0 user_paid0) (sub0 ''active'' ''prod_retired''))
       = Return None
   \<and> (\<exists>u'. u_final (processSub tiers0 (services0 user_paid0) (sub0 ''active'' ''prod_retired''))
         = Some u' \<and> Tier u' = TierFree tiers0)
   \<and> range_order (stripePlans tiers0) (rev (stripePlans tiers0))
   \<and> 7 \<notin> snd ` set (stripePlans tiers0)
   \<and> planForTier (rev (stripePlans tiers0)) 7 = ''''"
  using tier_lookup_total_planForTier_empty [of "sub0 ''active'' ''prod_retired''"
      "\<lparr>Customer_ID = ''cus_ada''\<rparr>" "services0 user_paid0" user_paid0
      "\<lparr>Plan_Product = Some \<lparr>Product_ID = ''prod_retired''\<rparr>\<rparr>"
      "\<lparr>Product_ID = ''prod_retired''\<rparr>" tiers0 "rev (stripePlans tiers0)" 7]
    range_order_rev
  by (simp add: processSub_def tiers0_def services0_def sub0_def user0_def user_paid0_def
      stripePlans_def map_index_def Time_UTC_def time_Unix_def unixToInternal_def
      SubscriptionStatusActive_def)

text \<open>
  Claim C10. When the tier constants are pairwise different, no two entries of
  \<open>stripePlans\<close> have the same tier, and \<open>planForTier\<close> returns the same plan for a
  tier whatever the order in which its loop visits the map.
\<close>

theorem planForTier_deterministic:
  assumes "tiers_enumerated K"
    and "range_order (stripePlans K) ord1"
    and "range_order (stripePlans K) ord2"
  shows "planForTier ord1 t = planForTier ord2 t"
proof (cases "t \<in> snd ` set (stripePlans K)")
  case False
  then show ?thesis using assms(2,3) by (simp add: range_order_def planForTier_absent)
next
  case True
  then obtain p where p: "(p, t) \<in> set (stripePlans K)" by auto
  have "planForTier ord t = p" if r: "range_order (stripePlans K) ord" for ord
  proof (rule planForTier_unique)
    show "(p, t) \<in> set ord" using p r by (simp add: range_order_def)
    show "p' = p" if "(p', t) \<in> set ord" for p'
    proof -
      have "(p', t) \<in> set (stripePlans K)" using that r by (simp add: range_order_def)
      then show ?thesis using stripePlans_one_plan_per_tier [OF assms(1) p] by blast
    qed
  qed
  then show ?thesis using assms(2,3) by simp
qed

theorem planForTier_deterministic_witness:
  "tiers_enumerated tiers0
   \<and> range_order (stripePlans tiers0) (stripePlans tiers0)
   \<and> range_order (stripePlans tiers0) (rev (stripePlans tiers0))
   \<and> planForTier (stripePlans tiers0) 3 = planForTier (rev (stripePlans tiers0)) 3
   \<and> planForTier (stripePlans tiers0) 3 = ''prod_J06Qu7zg1unO8R''"
  using planForTier_deterministic [OF tiers0_enumerated range_order_self range_order_rev, of 3]
    tiers0_enumerated range_order_self range_order_rev
  by (simp add: stripePlans_def tiers0_def)


section \<open>Properties of assignTier and createStripeCustomer\<close>



text \<open>
  Claim C8. \<open>createStripeCustomer\<close> takes the plan from the tier of the user it is
  given. For a user on the free tier, as a user is when it is created, the customer is
  created on a plan that \<open>stripePlans\<close> maps to \<open>TierFree\<close> (the plan
  \<open>prod_J2FBsxvEl4VoUK\<close> when the tier constants are pairwise different), the only call
  is \<open>customer.New\<close>, and the user record is left as it was.
\<close>

theorem createStripeCustomer_free_plan:
  assumes "Tier u = TierFree K"
    and "range_order (stripePlans K) ord"
  shows "\<exists>cp plan.
           createStripeCustomer sv ord u = (customer_New sv [] cp, u, [Call_customer_New cp]) \<and>
           Params_Plan cp = Some plan \<and>
           (plan, TierFree K) \<in> set (stripePlans K) \<and>
           (tiers_enumerated K \<longrightarrow> plan = ''prod_J2FBsxvEl4VoUK'') \<and>
           writes (snd (snd (createStripeCustomer sv ord u))) = []"
proof -
  have mem: "(''prod_J2FBsxvEl4VoUK'', TierFree K) \<in> set (stripePlans K)"
    by (simp add: stripePlans_def)
  then have "(''prod_J2FBsxvEl4VoUK'', TierFree K) \<in> set ord"
    using assms(2) by (simp add: range_order_def)
  then have "TierFree K \<in> snd ` set ord"
    using image_eqI [of "TierFree K" snd "(''prod_J2FBsxvEl4VoUK'', TierFree K)" "set ord"]
    by simp
  then have "(planForTier ord (TierFree K), TierFree K) \<in> set ord"
    by (rule planForTier_present)
  then have p: "(planForTier ord (TierFree K), TierFree K) \<in> set (stripePlans K)"
    using assms(2) by (simp add: range_order_def)
  have "planForTier ord (TierFree K) = ''prod_J2FBsxvEl4VoUK''" if "tiers_enumerated K"
    using stripePlans_one_plan_per_tier [OF that mem p] .
  then show ?thesis
    using p by (simp add: createStripeCustomer_def Let_def assms(1))
qed

theorem createStripeCustomer_free_plan_witness:
  "Tier user0 = TierFree tiers0
   \<and> range_order (stripePlans tiers0) (rev (stripePlans tiers0))
   \<and> createStripeCustomer (services0 user0) (rev (stripePlans tiers0)) user0 =
       (Inr \<lparr>Customer_ID = ''cus_new''\<rparr>, user0,
        [Call_customer_New \<lparr>Description = Some ''sub-ada'', Params_Email = Some ''ada@example.com'',
           Name = Some ''Ada Moss'', Params_Plan = Some ''prod_J2FBsxvEl4VoUK''\<rparr>])"
  using createStripeCustomer_free_plan [of user0 tiers0 "rev (stripePlans tiers0)" "services0 user0"]
    range_order_rev
  by (simp add: createStripeCustomer_def services0_def user0_def stripePlans_def tiers0_def)

section \<open>Properties of count\<close>

text \<open>
  What \<open>count\<close> returns, answer by answer: the error of \<open>Aggregate\<close> and the error of
  \<open>Decode\<close> come back wrapped, with count 0; a cursor whose \<open>Next\<close> is false gives 0
  and no error; otherwise the decoded count is returned, which is \<open>n\<close> for MongoDB's
  answer to \<open>n\<close> matching documents.
\<close>

lemma count_returns:
  "(\<forall>e. Aggregate [matchStage, [(''$count'', BStr ''count'')]] = Inl e \<longrightarrow>
      count Aggregate matchStage = (0, Some (errors_AddContext e ''DB query failed'')))
   \<and> (\<forall>c. Aggregate [matchStage, [(''$count'', BStr ''count'')]] = Inr c \<longrightarrow>
        (\<not> Next c \<longrightarrow> count Aggregate matchStage = (0, None)) \<and>
        (\<forall>e. Next c \<and> Decode c = Inl e \<longrightarrow>
           count Aggregate matchStage =
             (0, Some (errors_AddContext e ''failed to decode DB data''))) \<and>
        (\<forall>n. Next c \<and> Decode c = Inr n \<longrightarrow> count Aggregate matchStage = (n, None)))
   \<and> (\<forall>n. Aggregate [matchStage, [(''$count'', BStr ''count'')]] = Inr (count_cursor n) \<longrightarrow>
        count Aggregate matchStage = (int n, None))"
  by (simp add: count_def count_cursor_def)

text \<open>
  Claim C7. \<open>count\<close> is to return every failure of the aggregation as an error. It
  does so for the errors that \<open>Aggregate\<close> and \<open>Decode\<close> return, but not for a failure
  of the cursor's iteration: \<open>Next\<close> answers false then, \<open>count\<close> takes that for "no
  results" without reading the cursor's error, and returns 0 and no error. Here
  \<open>Aggregate\<close> succeeds and hands back a cursor whose iteration failed.
\<close>

theorem count_swallows_cursor_error:
  "Next failed_cursor0 = False
   \<and> Cursor_Err failed_cursor0 = Some (Err ''context deadline exceeded'')
   \<and> count (\<lambda>p. Inr failed_cursor0) [(''user_id'', BStr ''u1'')] = (0, None)"
  by (simp add: count_def failed_cursor0_def)


section \<open>Properties of the pipelines\<close>

lemma map_of_set_field: "map_of (set_field k v d) = (map_of d)(k \<mapsto> v)"
  by (induction d) (auto simp: fun_eq_iff)

lemma set_field_keys: "fst ` set (set_field k v d) = insert k (fst ` set d)"
  by (simp add: dom_map_of_conv_image_fst [symmetric] map_of_set_field)

lemma distinct_set_field: "distinct (map fst d) \<Longrightarrow> distinct (map fst (set_field k v d))"
proof (induction d)
  case Nil
  then show ?case by simp
next
  case (Cons e d)
  obtain k' v' where e: "e = (k', v')" by (cases e)
  show ?case
  proof (cases "k' = k")
    case True
    then show ?thesis using Cons.prems by (simp add: e)
  next
    case False
    have "k' \<notin> fst ` set (set_field k v d)"
      using Cons.prems False by (simp add: e set_field_keys)
    then show ?thesis using Cons by (simp add: e False)
  qed
qed

lemma map_of_merge_docs:
  "distinct (map fst b) \<Longrightarrow> map_of (merge_docs a b) = map_of a ++ map_of b"
proof (induction b arbitrary: a)
  case Nil
  then show ?case by simp
next
  case (Cons e b)
  obtain k v where e: "e = (k, v)" by (cases e)
  have kb: "map_of b k = None"
    using Cons.prems by (simp add: e map_of_eq_None_iff)
  have "map_of (merge_docs a (e # b)) = (map_of a)(k \<mapsto> v) ++ map_of b"
    using Cons by (simp add: e map_of_set_field)
  also have "\<dots> = map_of a ++ map_of (e # b)"
    using kb by (auto simp: e fun_eq_iff map_add_def split: option.splits)
  finally show ?case .
qed

lemma map_of_project_fields:
  "distinct (map fst spec) \<Longrightarrow>
   map_of (List.map_filter (project_field row) spec) k =
     (case map_of spec k of
        None \<Rightarrow> None
      | Some e \<Rightarrow> map_option snd (project_field row (k, e)))"
proof (induction spec)
  case Nil
  then show ?case by (simp add: List.map_filter_simps)
next
  case (Cons a spec)
  obtain k' e' where a: "a = (k', e')" by (cases a)
  have key: "project_field row (k', e') = Some y \<Longrightarrow> fst y = k'" for y
    by (auto simp: project_field_def split: if_splits)
  show ?case
  proof (cases "k' = k")
    case True
    have none: "map_of spec k = None"
      using Cons.prems True by (simp add: a map_of_eq_None_iff)
    show ?thesis
    proof (cases "project_field row (k', e')")
      case None
      then show ?thesis using Cons none True by (simp add: a List.map_filter_simps)
    next
      case (Some y)
      then show ?thesis using key [OF Some] True
        by (cases y) (simp add: a List.map_filter_simps)
    qed
  next
    case False
    show ?thesis
    proof (cases "project_field row (k', e')")
      case None
      then show ?thesis using Cons False by (simp add: a List.map_filter_simps)
    next
      case (Some y)
      then show ?thesis using key [OF Some] Cons False
        by (cases y) (simp add: a List.map_filter_simps)
    qed
  qed
qed

subsection \<open>The three row stages, one by one\<close>

lemma drop4_downloads:
  "drop 4 (generateDownloadsPipeline m off ps) =
     [generateDownloadsPipeline m off ps ! 4, generateDownloadsPipeline m off ps ! 5,
      generateDownloadsPipeline m off ps ! 6]"
  by (simp add: generateDownloadsPipeline_def)

lemma run_lookup_stage:
  "run_stage db (generateDownloadsPipeline m off ps ! 4) row =
     Some (set_field ''fromSkylinks''
       (BArr (map BDoc
          (filter (\<lambda>x. field_or_null x ''_id'' = field_or_null row ''skylink_id'')
             (db ''skylinks''))))
       row)"
  by (simp add: generateDownloadsPipeline_def run_stage_def lookup_row_def)

lemma run_merge_stage:
  assumes "map_of row ''fromSkylinks'' = Some (BArr (BDoc sky # rest))"
  shows "run_stage db (generateDownloadsPipeline m off ps ! 5) row =
     Some (merge_docs (merge_docs [] sky) row)"
  using assms
  by (simp add: generateDownloadsPipeline_def run_stage_def apply_operator_def field_path_def
      array_elem_at_def)

lemma map_of_run_merge_stage:
  assumes "map_of row ''fromSkylinks'' = Some (BArr (BDoc sky # rest))"
    and "distinct (map fst row)" and "distinct (map fst sky)"
  shows "\<exists>out. run_stage db (generateDownloadsPipeline m off ps ! 5) row = Some out \<and>
           map_of out = map_of sky ++ map_of row"
  using assms by (simp add: run_merge_stage map_of_merge_docs)

lemma map_of_project_row:
  assumes "\<not> is_exclusion spec" and "distinct (map fst spec)" and "k \<noteq> ''_id''"
  shows "map_of (project_row spec row) k =
     (case map_of spec k of
        None \<Rightarrow> None
      | Some e \<Rightarrow> map_option snd (project_field row (k, e)))"
proof -
  have "map_of (case map_of row ''_id'' of
           Some v \<Rightarrow> (if map_of spec ''_id'' = None then [(''_id'', v)] else [])
         | None \<Rightarrow> []) k = None"
    using assms(3) by (simp split: option.splits)
  then have "map_of (project_row spec row) k =
      map_of (List.map_filter (project_field row) spec) k"
    using assms(1) by (simp add: project_row_def map_add_def)
  then show ?thesis
    using assms(2) by (simp add: map_of_project_fields)
qed

lemma project_size:
  assumes "map_of row ''bytes'' = Some (BInt b)" and "map_of row ''size'' = Some (BInt sz)"
  shows "\<exists>out. run_stage db (generateDownloadsPipeline m off ps ! 6) row = Some out \<and>
           map_of out ''size'' = Some (BInt (if 0 < b then b else sz))"
proof -
  define cond where "cond = BDoc [(''$cond'', BArr
       [BDoc [(''$gt'', BArr [BStr ''$bytes'', BInt 0])], BStr ''$bytes'', BStr ''$size''])]"
  define spec where "spec = [(''skylink'', BInt 1), (''name'', BInt 1), (''user_id'', BInt 1),
      (''skylink_id'', BInt 1), (''timestamp'', BInt 1), (''size'', cond)]"
  have run: "run_stage db (generateDownloadsPipeline m off ps ! 6) row =
      Some (project_row spec row)"
    by (simp add: generateDownloadsPipeline_def run_stage_def spec_def cond_def)
  have excl: "\<not> is_exclusion spec"
    by (simp add: is_exclusion_def spec_def)
  have dist: "distinct (map fst spec)"
    by (simp add: spec_def)
  have look: "map_of spec ''size'' = Some cond"
    by (simp add: spec_def)
  have ev: "eval_expr row cond = Some (BInt (if 0 < b then b else sz))"
    using assms by (simp add: cond_def apply_operator_def field_path_def)
  have "\<not> is_flag cond"
    by (simp add: cond_def)
  then have fld: "project_field row (''size'', cond) =
      Some (''size'', BInt (if 0 < b then b else sz))"
    by (simp add: project_field_def ev)
  have "map_of (project_row spec row) ''size'' = Some (BInt (if 0 < b then b else sz))"
    by (simp add: map_of_project_row [OF excl dist] look fld)
  then show ?thesis using run by simp
qed

lemma uploads_row_stages:
  "generateUploadsPipeline m off ps ! 4 = generateDownloadsPipeline m off ps ! 4"
  "generateUploadsPipeline m off ps ! 5 = generateDownloadsPipeline m off ps ! 5"
  by (simp_all add: generateUploadsPipeline_def generateDownloadsPipeline_def)

lemma merge_stage_record_wins:
  assumes "map_of row ''fromSkylinks'' = Some (BArr (BDoc sky # rest))"
    and "distinct (map fst row)" and "distinct (map fst sky)"
  shows "\<exists>out. run_stage db (generateDownloadsPipeline m off ps ! 5) row = Some out \<and>
           (\<forall>k. map_of out k = (case map_of row k of Some v \<Rightarrow> Some v | None \<Rightarrow> map_of sky k))"
proof -
  obtain out where "run_stage db (generateDownloadsPipeline m off ps ! 5) row = Some out"
    and "map_of out = map_of sky ++ map_of row"
    using map_of_run_merge_stage [OF assms] by blast
  then show ?thesis by (simp add: map_add_def)
qed

text \<open>
  Claim C3. Both builders return seven stages: the caller's match stage, \<open>$sort\<close> by
  timestamp descending, \<open>$skip\<close> of the offset, \<open>$limit\<close> of the page size, \<open>$lookup\<close>
  into the skylinks by id, \<open>$replaceRoot\<close>, \<open>$project\<close>; skip and limit come before
  the lookup. The lookup stores the matching skylinks under \<open>fromSkylinks\<close>, and the
  \<open>$replaceRoot\<close> stage gives, for every field name, the record's own value when the
  record has the field and the joined skylink's value otherwise.
\<close>

theorem pipelines_stage_order:
  "\<forall>P \<in> {generateUploadsPipeline, generateDownloadsPipeline}.
     length (P m off ps) = 7 \<and>
     P m off ps ! 0 = m \<and>
     P m off ps ! 1 = [(''$sort'', BDoc [(''timestamp'', BInt (- 1))])] \<and>
     P m off ps ! 2 = [(''$skip'', BInt off)] \<and>
     P m off ps ! 3 = [(''$limit'', BInt ps)] \<and>
     P m off ps ! 4 =
       [(''$lookup'', BDoc
          [(''from'', BStr ''skylinks''), (''localField'', BStr ''skylink_id''),
           (''foreignField'', BStr ''_id''), (''as'', BStr ''fromSkylinks'')])] \<and>
     stage_op (P m off ps ! 5) = Some ''$replaceRoot'' \<and>
     stage_op (P m off ps ! 6) = Some ''$project'' \<and>
     (\<forall>db row. run_stage db (P m off ps ! 4) row =
        Some (set_field ''fromSkylinks''
          (BArr (map BDoc
             (filter (\<lambda>x. field_or_null x ''_id'' = field_or_null row ''skylink_id'')
                (db ''skylinks''))))
          row)) \<and>
     (\<forall>db row sky rest.
        map_of row ''fromSkylinks'' = Some (BArr (BDoc sky # rest)) \<and>
        distinct (map fst row) \<and> distinct (map fst sky) \<longrightarrow>
        (\<exists>out. run_stage db (P m off ps ! 5) row = Some out \<and>
           (\<forall>k. map_of out k =
              (case map_of row k of Some v \<Rightarrow> Some v | None \<Rightarrow> map_of sky k))))"
proof -
  have shape_up:
    "length (generateUploadsPipeline m off ps) = 7 \<and>
     generateUploadsPipeline m off ps ! 0 = m \<and>
     generateUploadsPipeline m off ps ! 1 = [(''$sort'', BDoc [(''timestamp'', BInt (- 1))])] \<and>
     generateUploadsPipeline m off ps ! 2 = [(''$skip'', BInt off)] \<and>
     generateUploadsPipeline m off ps ! 3 = [(''$limit'', BInt ps)] \<and>
     generateUploadsPipeline m off ps ! 4 =
       [(''$lookup'', BDoc
          [(''from'', BStr ''skylinks''), (''localField'', BStr ''skylink_id''),
           (''foreignField'', BStr ''_id''), (''as'', BStr ''fromSkylinks'')])] \<and>
     stage_op (generateUploadsPipeline m off ps ! 5) = Some ''$replaceRoot'' \<and>
     stage_op (generateUploadsPipeline m off ps ! 6) = Some ''$project''"
    by (simp add: generateUploadsPipeline_def stage_op_def)
  have shape_down:
    "length (generateDownloadsPipeline m off ps) = 7 \<and>
     generateDownloadsPipeline m off ps ! 0 = m \<and>
     generateDownloadsPipeline m off ps ! 1 = [(''$sort'', BDoc [(''timestamp'', BInt (- 1))])] \<and>
     generateDownloadsPipeline m off ps ! 2 = [(''$skip'', BInt off)] \<and>
     generateDownloadsPipeline m off ps ! 3 = [(''$limit'', BInt ps)] \<and>
     generateDownloadsPipeline m off ps ! 4 =
       [(''$lookup'', BDoc
          [(''from'', BStr ''skylinks''), (''localField'', BStr ''skylink_id''),
           (''foreignField'', BStr ''_id''), (''as'', BStr ''fromSkylinks'')])] \<and>
     stage_op (generateDownloadsPipeline m off ps ! 5) = Some ''$replaceRoot'' \<and>
     stage_op (generateDownloadsPipeline m off ps ! 6) = Some ''$project''"
    by (simp add: generateDownloadsPipeline_def stage_op_def)
  have sem_down:
    "(\<forall>db row. run_stage db (generateDownloadsPipeline m off ps ! 4) row =
        Some (set_field ''fromSkylinks''
          (BArr (map BDoc
             (filter (\<lambda>x. field_or_null x ''_id'' = field_or_null row ''skylink_id'')
                (db ''skylinks''))))
          row)) \<and>
     (\<forall>db row sky rest.
        map_of row ''fromSkylinks'' = Some (BArr (BDoc sky # rest)) \<and>
        distinct (map fst row) \<and> distinct (map fst sky) \<longrightarrow>
        (\<exists>out. run_stage db (generateDownloadsPipeline m off ps ! 5) row = Some out \<and>
           (\<forall>k. map_of out k =
              (case map_of row k of Some v \<Rightarrow> Some v | None \<Rightarrow> map_of sky k))))"
    using run_lookup_stage [of _ m off ps] merge_stage_record_wins [of _ _ _ _ m off ps]
    by blast
  have sem_up:
    "(\<forall>db row. run_stage db (generateUploadsPipeline m off ps ! 4) row =
        Some (set_field ''fromSkylinks''
          (BArr (map BDoc
             (filter (\<lambda>x. field_or_null x ''_id'' = field_or_null row ''skylink_id'')
                (db ''skylinks''))))
          row)) \<and>
     (\<forall>db row sky rest.
        map_of row ''fromSkylinks'' = Some (BArr (BDoc sky # rest)) \<and>
        distinct (map fst row) \<and> distinct (map fst sky) \<longrightarrow>
        (\<exists>out. run_stage db (generateUploadsPipeline m off ps ! 5) row = Some out \<and>
           (\<forall>k. map_of out k =
              (case map_of row k of Some v \<Rightarrow> Some v | None \<Rightarrow> map_of sky k))))"
    unfolding uploads_row_stages by (rule sem_down)
  show ?thesis
    using shape_up shape_down sem_up sem_down by blast
qed

theorem pipelines_stage_order_witness:
  "generateUploadsPipeline [(''user_id'', BStr ''u1'')] 20 10 ! 2 = [(''$skip'', BInt 20)]
   \<and> generateDownloadsPipeline [(''user_id'', BStr ''u1'')] 20 10 ! 3 = [(''$limit'', BInt 10)]
   \<and> map_of joined0 ''fromSkylinks'' = Some (BArr [BDoc skylink0])
   \<and> distinct (map fst joined0) \<and> distinct (map fst skylink0)
   \<and> (\<exists>out. run_stage db0 (generateUploadsPipeline [(''user_id'', BStr ''u1'')] 20 10 ! 5) joined0
          = Some out \<and>
        map_of out ''name'' = Some (BStr ''mine'') \<and> map_of out ''size'' = Some (BInt 200))"
proof -
  have h: "map_of joined0 ''fromSkylinks'' = Some (BArr (BDoc skylink0 # [])) \<and>
      distinct (map fst joined0) \<and> distinct (map fst skylink0)"
    by (simp add: joined0_def skylink0_def)
  have "generateUploadsPipeline \<in> {generateUploadsPipeline, generateDownloadsPipeline}"
    and "generateDownloadsPipeline \<in> {generateUploadsPipeline, generateDownloadsPipeline}"
    by simp_all
  note up = pipelines_stage_order [of "[(''user_id'', BStr ''u1'')]" 20 10, rule_format, OF this(1)]
    and down = pipelines_stage_order [of "[(''user_id'', BStr ''u1'')]" 20 10, rule_format, OF this(2)]
  obtain out where
    "run_stage db0 (generateUploadsPipeline [(''user_id'', BStr ''u1'')] 20 10 ! 5) joined0 = Some out"
    and "\<forall>k. map_of out k =
        (case map_of joined0 k of Some v \<Rightarrow> Some v | None \<Rightarrow> map_of skylink0 k)"
    using up h by blast
  then have "\<exists>out. run_stage db0 (generateUploadsPipeline [(''user_id'', BStr ''u1'')] 20 10 ! 5) joined0
          = Some out \<and>
        map_of out ''name'' = Some (BStr ''mine'') \<and> map_of out ''size'' = Some (BInt 200)"
    by (simp add: joined0_def skylink0_def)
  then show ?thesis using up down h by simp
qed

text \<open>
  Claim C4. A download record with the byte count \<open>b\<close> and no size of its own, joined
  with a skylink of size \<open>sz\<close>, leaves the last three stages of the downloads pipeline
  with the size \<open>b\<close> when \<open>b\<close> is greater than zero and \<open>sz\<close> otherwise: 50 for the
  bytes 50 and the size 200, and 200 for the bytes 0.
\<close>

theorem downloads_effective_size:
  assumes "distinct (map fst d)" and "distinct (map fst sky)"
    and bytes: "map_of d ''bytes'' = Some (BInt b)"
    and nosize: "map_of d ''size'' = None"
    and join: "filter (\<lambda>x. field_or_null x ''_id'' = field_or_null d ''skylink_id'')
                 (db ''skylinks'') = sky # rest"
    and size: "map_of sky ''size'' = Some (BInt sz)"
  shows "\<exists>out. run_stages db (drop 4 (generateDownloadsPipeline m off ps)) d = Some out \<and>
           map_of out ''size'' = Some (BInt (if 0 < b then b else sz))"
proof -
  define row1 where "row1 = set_field ''fromSkylinks'' (BArr (map BDoc (sky # rest))) d"
  have s4: "run_stage db (generateDownloadsPipeline m off ps ! 4) d = Some row1"
    by (simp add: run_lookup_stage join row1_def)
  have fs: "map_of row1 ''fromSkylinks'' = Some (BArr (BDoc sky # map BDoc rest))"
    by (simp add: row1_def map_of_set_field)
  have d1: "distinct (map fst row1)"
    by (simp add: row1_def distinct_set_field assms(1))
  obtain merged where s5: "run_stage db (generateDownloadsPipeline m off ps ! 5) row1 = Some merged"
    and mm: "map_of merged = map_of sky ++ map_of row1"
    using map_of_run_merge_stage [OF fs d1 assms(2)] by blast
  have mb: "map_of merged ''bytes'' = Some (BInt b)"
    by (simp add: mm map_add_def row1_def map_of_set_field bytes)
  have ms: "map_of merged ''size'' = Some (BInt sz)"
    by (simp add: mm map_add_def row1_def map_of_set_field nosize size)
  obtain out where "run_stage db (generateDownloadsPipeline m off ps ! 6) merged = Some out"
    and "map_of out ''size'' = Some (BInt (if 0 < b then b else sz))"
    using project_size [OF mb ms] by blast
  then show ?thesis
    by (simp add: drop4_downloads s4 s5)
qed

theorem downloads_effective_size_witness:
  "map_of (download0 50) ''bytes'' = Some (BInt 50)
   \<and> map_of (download0 0) ''bytes'' = Some (BInt 0)
   \<and> map_of skylink0 ''size'' = Some (BInt 200)
   \<and> (\<exists>out. run_stages db0 (drop 4 (generateDownloadsPipeline [] 0 10)) (download0 50) = Some out
         \<and> map_of out ''size'' = Some (BInt 50))
   \<and> (\<exists>out. run_stages db0 (drop 4 (generateDownloadsPipeline [] 0 10)) (download0 0) = Some out
         \<and> map_of out ''size'' = Some (BInt 200))"
proof -
  have hd: "distinct (map fst (download0 b))" for b
    by (simp add: download0_def)
  have hs: "distinct (map fst skylink0)"
    by (simp add: skylink0_def)
  have hb: "map_of (download0 b) ''bytes'' = Some (BInt b)" for b
    by (simp add: download0_def)
  have hn: "map_of (download0 b) ''size'' = None" for b
    by (simp add: download0_def)
  have hj: "filter (\<lambda>x. field_or_null x ''_id'' = field_or_null (download0 b) ''skylink_id'')
       (db0 ''skylinks'') = skylink0 # []" for b
    by (simp add: download0_def skylink0_def db0_def field_or_null_def)
  have hz: "map_of skylink0 ''size'' = Some (BInt 200)"
    by (simp add: skylink0_def)
  show ?thesis
    using downloads_effective_size [where db = db0 and m = "[]" and off = 0 and ps = 10,
        OF hd [of 50] hs hb [of 50] hn [of 50] hj [of 50] hz]
      downloads_effective_size [where db = db0 and m = "[]" and off = 0 and ps = 10,
        OF hd [of 0] hs hb [of 0] hn [of 0] hj [of 0] hz]
      hb [of 50] hb [of 0] hz
    by simp
qed

end
